theory Spec2Isabelle
  imports Complex_Main "HOL-Library.AList"
begin

section \<open>Python values met by the plugin\<close>

text \<open>
  The plugin reads its settings from a JSON-backed dictionary, so a setting can hold any
  JSON value. A Python float is modelled by the real number it denotes, together with the
  three non-finite values a float can take; rounding is not modelled (the code only
  compares, clamps and subtracts these values).
\<close>

datatype pyfloat = Fin real | PosInf | NegInf | NaN

text \<open>Python's \<^verbatim>\<open>a < b\<close> on floats: every comparison with NaN is false.\<close>

fun flt :: "pyfloat \<Rightarrow> pyfloat \<Rightarrow> bool" where
  "flt NaN _ = False"
| "flt _ NaN = False"
| "flt (Fin a) (Fin b) = (a < b)"
| "flt (Fin _) PosInf = True"
| "flt (Fin _) NegInf = False"
| "flt PosInf _ = False"
| "flt NegInf NegInf = False"
| "flt NegInf _ = True"

text \<open>Python's \<^verbatim>\<open>a <= b\<close> on floats.\<close>

fun fle :: "pyfloat \<Rightarrow> pyfloat \<Rightarrow> bool" where
  "fle NaN _ = False"
| "fle _ NaN = False"
| "fle (Fin a) (Fin b) = (a \<le> b)"
| "fle (Fin _) PosInf = True"
| "fle (Fin _) NegInf = False"
| "fle PosInf PosInf = True"
| "fle PosInf _ = False"
| "fle NegInf _ = True"

text \<open>
  The builtins \<^verbatim>\<open>min(a, b)\<close> and \<^verbatim>\<open>max(a, b)\<close> keep their first argument
  unless the second one is strictly smaller (strictly greater).
\<close>

definition py_min :: "pyfloat \<Rightarrow> pyfloat \<Rightarrow> pyfloat" where
  "py_min a b = (if flt b a then b else a)"

definition py_max :: "pyfloat \<Rightarrow> pyfloat \<Rightarrow> pyfloat" where
  "py_max a b = (if flt a b then b else a)"

datatype pyval =
    PNone
  | PBool bool
  | PInt int
  | PFloat pyfloat
  | PStr string
  | PList "pyval list"
  | PDict "(string \<times> pyval) list"

text \<open>The exceptions (subclasses of \<^verbatim>\<open>Exception\<close>) that the model tells apart.\<close>

datatype exn =
    TypeError
  | ValueError
  | OverflowError
  | AttributeError
  | VoiceToTextError
  | STTProviderError
  | OtherException

text \<open>Truth value of a Python object, as \<^verbatim>\<open>if x:\<close> and \<^verbatim>\<open>not x\<close> take it.\<close>

fun truthy :: "pyval \<Rightarrow> bool" where
  "truthy PNone = False"
| "truthy (PBool b) = b"
| "truthy (PInt i) = (i \<noteq> 0)"
| "truthy (PFloat f) = (f \<noteq> Fin 0)"
| "truthy (PStr s) = (s \<noteq> [])"
| "truthy (PList xs) = (xs \<noteq> [])"
| "truthy (PDict kvs) = (kvs \<noteq> [])"

text \<open>\<^verbatim>\<open>d.get(key, default)\<close> on a dictionary given by its items.\<close>

definition dict_get :: "(string \<times> pyval) list \<Rightarrow> string \<Rightarrow> pyval \<Rightarrow> pyval" where
  "dict_get d k dflt = (case map_of d k of None \<Rightarrow> dflt | Some v \<Rightarrow> v)"

text \<open>
  \<^verbatim>\<open>x.get(key, default)\<close> on any value: only a dictionary has the method, every other
  JSON value raises \<^verbatim>\<open>AttributeError\<close>.
\<close>

definition py_get :: "pyval \<Rightarrow> string \<Rightarrow> pyval \<Rightarrow> exn + pyval" where
  "py_get x k dflt = (case x of PDict d \<Rightarrow> Inr (dict_get d k dflt) | _ \<Rightarrow> Inl AttributeError)"

text \<open>
  The builtin \<^verbatim>\<open>float(x)\<close>. The parser of numeric strings is not part of the plugin
  and is a parameter (\<open>None\<close> where Python raises \<^verbatim>\<open>ValueError\<close>). An integer too
  large for a double raises \<^verbatim>\<open>OverflowError\<close>; a smaller one is taken for its exact
  value.
\<close>

definition py_float :: "(string \<Rightarrow> pyfloat option) \<Rightarrow> pyval \<Rightarrow> exn + pyfloat" where
  "py_float str_to_float x =
     (case x of
        PNone \<Rightarrow> Inl TypeError
      | PBool b \<Rightarrow> Inr (Fin (if b then 1 else 0))
      | PInt i \<Rightarrow>
          if \<bar>i\<bar> < 2 ^ 1024 - 2 ^ 970 then Inr (Fin (real_of_int i)) else Inl OverflowError
      | PFloat f \<Rightarrow> Inr f
      | PStr s \<Rightarrow> (case str_to_float s of None \<Rightarrow> Inl ValueError | Some f \<Rightarrow> Inr f)
      | PList _ \<Rightarrow> Inl TypeError
      | PDict _ \<Rightarrow> Inl TypeError)"

section \<open>The probabilistic reply service\<close>

text \<open>
  The fields of \<^verbatim>\<open>ProbabilisticReplyService\<close>. The dictionary
  \<^verbatim>\<open>_last_decision_time\<close> is kept as the list of its items in insertion order, as a
  Python dictionary iterates them.
\<close>

record service =
  config :: "(string \<times> pyval) list"
  enabled :: pyval
  reply_probability :: pyfloat
  last_decision_time :: "(string \<times> real) list"

text \<open>
  \<^verbatim>\<open>_load_config\<close>. The method assigns \<^verbatim>\<open>self.enabled\<close> before it converts the
  probability, so an exception of the conversion leaves the new \<open>enabled\<close> beside the old
  probability: the result is the exception raised, if any, and the fields as the call
  leaves them.
\<close>

definition load_config :: "(string \<Rightarrow> pyfloat option) \<Rightarrow> service \<Rightarrow> exn option \<times> service" where
  "load_config str_to_float s =
     (let chat_reply_config = dict_get (config s) ''Chat_Reply'' (PDict []) in
      case py_get chat_reply_config ''Enable_Probabilistic_Reply'' (PBool False) of
        Inl e \<Rightarrow> (Some e, s)
      | Inr en \<Rightarrow>
          (let s1 = s\<lparr>enabled := en\<rparr> in
           case py_get chat_reply_config ''Reply_Probability'' (PFloat (Fin 0.3)) of
             Inl e \<Rightarrow> (Some e, s1)
           | Inr p \<Rightarrow>
               (case py_float str_to_float p of
                  Inl e \<Rightarrow> (Some e, s1)
                | Inr f \<Rightarrow>
                    (None, s1\<lparr>reply_probability := py_max (Fin 0) (py_min (Fin 1) f)\<rparr>))))"

text \<open>
  \<^verbatim>\<open>__init__\<close>: the object exists only when \<^verbatim>\<open>_load_config\<close> returns. Before the
  load the two policy fields are not yet assigned; the model fills them with the values
  the load overwrites.
\<close>

definition init :: "(string \<Rightarrow> pyfloat option) \<Rightarrow> (string \<times> pyval) list \<Rightarrow> exn + service" where
  "init str_to_float cfg =
     (case load_config str_to_float
             \<lparr>config = cfg, enabled = PBool False, reply_probability = Fin 0.3,
              last_decision_time = []\<rparr> of
        (Some e, _) \<Rightarrow> Inl e
      | (None, s) \<Rightarrow> Inr s)"

text \<open>\<^verbatim>\<open>update_config\<close>: stores the new dictionary, then loads it.\<close>

definition update_config ::
  "(string \<Rightarrow> pyfloat option) \<Rightarrow> (string \<times> pyval) list \<Rightarrow> service \<Rightarrow> exn option \<times> service" where
  "update_config str_to_float new_config s = load_config str_to_float (s\<lparr>config := new_config\<rparr>)"

text \<open>
  \<^verbatim>\<open>should_generate_reply\<close>. \<open>random_value\<close> is what \<^verbatim>\<open>random.random()\<close> returns
  and \<open>now\<close> what \<^verbatim>\<open>time.time()\<close> returns, were they called; \<open>session_id\<close> is
  \<open>None\<close> for Python's \<^verbatim>\<open>None\<close>.
\<close>

definition should_generate_reply ::
  "string option \<Rightarrow> real \<Rightarrow> real \<Rightarrow> service \<Rightarrow> bool \<times> service" where
  "should_generate_reply session_id random_value now s =
     (if \<not> truthy (enabled s) then (True, s)
      else
        (let should_reply = fle (Fin random_value) (reply_probability s);
             s' = (case session_id of
                     None \<Rightarrow> s
                   | Some sid \<Rightarrow>
                       if sid \<noteq> [] then
                         s\<lparr>last_decision_time := AList.update sid now (last_decision_time s)\<rparr>
                       else s)
         in (should_reply, s')))"

text \<open>
  \<^verbatim>\<open>cleanup_old_sessions\<close>: a first loop collects the expired identifiers, a second one
  deletes them. The method has no \<^verbatim>\<open>return\<close> statement, so its value is \<^verbatim>\<open>None\<close>;
  the number of deleted identifiers goes to a debug line of the log, when it is not zero.
\<close>

datatype log_line = DebugCleaned nat

definition sessions_to_remove :: "real \<Rightarrow> int \<Rightarrow> (string \<times> real) list \<Rightarrow> string list" where
  "sessions_to_remove current_time max_age_seconds items =
     map fst (filter (\<lambda>(session_id, last_time).
                         current_time - last_time > real_of_int max_age_seconds) items)"

definition cleanup_old_sessions ::
  "real \<Rightarrow> int \<Rightarrow> service \<Rightarrow> pyval \<times> log_line list \<times> service" where
  "cleanup_old_sessions current_time max_age_seconds s =
     (let to_remove = sessions_to_remove current_time max_age_seconds (last_decision_time s);
          s' = s\<lparr>last_decision_time :=
                   fold (\<lambda>session_id d. AList.delete session_id d) to_remove
                        (last_decision_time s)\<rparr>
      in (PNone, (if to_remove \<noteq> [] then [DebugCleaned (length to_remove)] else []), s'))"

text \<open>The default of the parameter \<^verbatim>\<open>max_age_seconds\<close>.\<close>

definition default_max_age_seconds :: int where
  "default_max_age_seconds = 3600"

text \<open>The invariant of the policy: the stored probability is a number of the unit interval.\<close>

definition probability_in_range :: "service \<Rightarrow> bool" where
  "probability_in_range s =
     (case reply_probability s of Fin p \<Rightarrow> 0 \<le> p \<and> p \<le> 1 | _ \<Rightarrow> False)"

section \<open>Sequences of decisions and sweeps\<close>

text \<open>
  The two operations that touch \<^verbatim>\<open>_last_decision_time\<close>, each with the reading of
  \<^verbatim>\<open>time.time()\<close> it makes: a call of \<^verbatim>\<open>should_generate_reply\<close> (with its draw)
  and a call of \<^verbatim>\<open>cleanup_old_sessions\<close>. \<open>run\<close> lists the states a sequence of
  operations goes through, the initial one first.
\<close>

datatype svc_op = Decide "string option" real real | Sweep real int

fun op_time :: "svc_op \<Rightarrow> real" where
  "op_time (Decide session_id random_value now) = now"
| "op_time (Sweep now max_age_seconds) = now"

fun apply_op :: "svc_op \<Rightarrow> service \<Rightarrow> service" where
  "apply_op (Decide session_id random_value now) s =
     snd (should_generate_reply session_id random_value now s)"
| "apply_op (Sweep now max_age_seconds) s =
     snd (snd (cleanup_old_sessions now max_age_seconds s))"

fun run :: "svc_op list \<Rightarrow> service \<Rightarrow> service list" where
  "run [] s = [s]"
| "run (x # xs) s = s # run xs (apply_op x s)"

text \<open>
  The clock is never set back: the readings of the operations do not decrease, and no
  stored timestamp lies after a reading still to come.
\<close>

definition clock_never_set_back :: "service \<Rightarrow> svc_op list \<Rightarrow> bool" where
  "clock_never_set_back s ops =
     (sorted (map op_time ops)
      \<and> list_all (\<lambda>(k, u). list_all (\<lambda>y. u \<le> op_time y) ops) (last_decision_time s))"

section \<open>The voice message pipeline\<close>

text \<open>
  The plugin of \<^verbatim>\<open>main.py\<close> talks to collaborators that live outside the two source
  files: the permission service, the voice file processor, the transcription service, the
  conversation manager and provider of the framework, and the event itself. The model
  records every call to one of them, and every call into the probabilistic reply
  service, as an effect in a trace; what a collaborator answers (a value, or an exception)
  is an input of the run. Log lines are left out.
\<close>

datatype message_type = GROUP_MESSAGE | FRIEND_MESSAGE | OTHER_MESSAGE

datatype component = Record string | OtherComponent

record event =
  sender_name :: string
  group_id :: string
  message_type :: message_type
  unified_msg_origin :: string
  messages :: "component list"

text \<open>An entry of a conversation history: its role and its content.\<close>

type_synonym history_entry = "string \<times> string"

text \<open>A conversation of the framework; \<open>history\<close> is its JSON text, if any.\<close>

record conversation =
  history :: "string option"

datatype effect =
    CanProcessVoice
  | ProcessVoiceFile string
  | TranscribeAudio string
  | GetCurrConversationId string
  | NewConversation string
  | GetConversation string string
  | UpdateConversation string string "history_entry list"
  | StopEvent
  | CanGenerateReply
  | ShouldGenerateReply string
  | GetUsingProvider
  | RequestLLM string "string option" "conversation option"
  | CleanupResources
  | CleanupOldSessions

text \<open>
  The settings the pipeline reads: \<^verbatim>\<open>self.enable_chat_reply\<close> and the two flags of the
  permission service.
\<close>

record plugin =
  enable_chat_reply :: pyval
  enable_group_voice_recognition :: pyval
  enable_group_voice_reply :: pyval

text \<open>
  What the collaborators answer during one pass of the loop of \<^verbatim>\<open>on_message\<close>, one field
  for each place of the source that calls out: \<open>Inl\<close> is an exception raised by the call.
  \<open>random_value\<close> and \<open>decision_time\<close> are the readings of \<^verbatim>\<open>random.random()\<close> and
  \<^verbatim>\<open>time.time()\<close> in \<^verbatim>\<open>should_generate_reply\<close>, \<open>cleanup_time\<close> the reading of
  \<^verbatim>\<open>time.time()\<close> in \<^verbatim>\<open>cleanup_old_sessions\<close>, and \<open>json_loads\<close> is the decoder
  \<^verbatim>\<open>json.loads\<close>, which raises on a text that is no list of entries.
\<close>

record env =
  can_process_voice_result :: "exn + bool"
  process_voice_file_result :: "exn + string option"
  transcribe_audio_result :: "exn + string option"
  record_curr_conversation_id :: "exn + string option"
  record_new_conversation :: "exn + string"
  record_conversation :: "exn + conversation option"
  json_loads :: "string \<Rightarrow> exn + history_entry list"
  record_update_conversation :: "exn + unit"
  gate_can_process_voice :: "exn + bool"
  can_generate_reply_result :: "exn + bool"
  random_value :: real
  decision_time :: real
  using_provider :: "exn + bool"
  reply_curr_conversation_id :: "exn + string option"
  reply_conversation :: "exn + conversation option"
  cleanup_resources_result :: "exn + unit"
  cleanup_time :: real

text \<open>The state a run changes: the reply service of the plugin, and the trace.\<close>

record pstate =
  probabilistic_reply_service :: service
  trace :: "effect list"

text \<open>
  A step of the pipeline takes the state and returns a value or an exception, with the
  state it leaves.
\<close>

type_synonym 'a io = "pstate \<Rightarrow> (exn + 'a) \<times> pstate"

definition io_return :: "'a \<Rightarrow> 'a io" where
  "io_return x = (\<lambda>st. (Inr x, st))"

definition io_bind :: "'a io \<Rightarrow> ('a \<Rightarrow> 'b io) \<Rightarrow> 'b io" where
  "io_bind m f = (\<lambda>st. case m st of (Inl e, st') \<Rightarrow> (Inl e, st') | (Inr x, st') \<Rightarrow> f x st')"

text \<open>\<^verbatim>\<open>try: m except Exception as e: h\<close>.\<close>

definition try_except :: "'a io \<Rightarrow> (exn \<Rightarrow> 'a io) \<Rightarrow> 'a io" where
  "try_except m h = (\<lambda>st. case m st of (Inl e, st') \<Rightarrow> h e st' | (Inr x, st') \<Rightarrow> (Inr x, st'))"

text \<open>
  \<^verbatim>\<open>try: m finally: fin\<close>: the final block runs after \<open>m\<close> however \<open>m\<close> ends; an
  exception of the final block replaces the result of \<open>m\<close>.
\<close>

definition try_finally :: "'a io \<Rightarrow> unit io \<Rightarrow> 'a io" where
  "try_finally m fin =
     (\<lambda>st. case m st of
              (r, st') \<Rightarrow> (case fin st' of (Inl e, st'') \<Rightarrow> (Inl e, st'') | (Inr u, st'') \<Rightarrow> (r, st'')))"

text \<open>A call to a collaborator: the call enters the trace, the answer comes from outside.\<close>

definition call :: "effect \<Rightarrow> exn + 'a \<Rightarrow> 'a io" where
  "call eff answer = (\<lambda>st. (answer, st\<lparr>trace := trace st @ [eff]\<rparr>))"

text \<open>A computation without an effect that may raise.\<close>

definition io_lift :: "exn + 'a \<Rightarrow> 'a io" where
  "io_lift r = (\<lambda>st. (r, st))"

text \<open>
  \<^verbatim>\<open>if x: f(x) else: g\<close> on an optional string: \<^verbatim>\<open>None\<close> and the empty string are
  false. The source writes the test also as \<^verbatim>\<open>if not x: g\<close> followed by the code that
  uses \<open>x\<close>.
\<close>

definition if_str :: "string option \<Rightarrow> (string \<Rightarrow> 'a) \<Rightarrow> 'a \<Rightarrow> 'a" where
  "if_str x f g = (case x of None \<Rightarrow> g | Some s \<Rightarrow> if s \<noteq> [] then f s else g)"

text \<open>
  The two literal prefixes of the source, as the bytes of their UTF-8 encoding: the one
  for a history entry (a bracketed tag and a space) and the one for the prompt.
\<close>

definition voice_history_prefix :: string where
  "voice_history_prefix =
     map char_of [0x5B, 0xE8, 0xAF, 0xAD, 0xE9, 0x9F, 0xB3, 0xE6, 0xB6, 0x88, 0xE6, 0x81, 0xAF,
                  0x5D, 0x20 :: nat]"

definition reply_prompt_prefix :: string where
  "reply_prompt_prefix =
     map char_of [0xE7, 0x94, 0xA8, 0xE6, 0x88, 0xB7, 0xE9, 0x80, 0x9A, 0xE8, 0xBF, 0x87, 0xE8,
                  0xAF, 0xAD, 0xE9, 0x9F, 0xB3, 0xE8, 0xAF, 0xB4, 0xE4, 0xBA, 0x86, 0x3A,
                  0x20 :: nat]"

text \<open>\<^verbatim>\<open>_process_voice_file\<close>: any exception of the processor becomes \<^verbatim>\<open>None\<close>.\<close>

definition process_voice_file :: "env \<Rightarrow> string \<Rightarrow> string option io" where
  "process_voice_file env voice =
     try_except (call (ProcessVoiceFile voice) (process_voice_file_result env))
       (\<lambda>e. io_return None)"

text \<open>\<^verbatim>\<open>_transcribe_voice\<close>: both handlers return \<^verbatim>\<open>None\<close>.\<close>

definition transcribe_voice :: "env \<Rightarrow> string \<Rightarrow> string option io" where
  "transcribe_voice env audio_file_path =
     try_except (call (TranscribeAudio audio_file_path) (transcribe_audio_result env))
       (\<lambda>e. io_return None)"

text \<open>
  \<^verbatim>\<open>json.loads(conversation.history) if conversation and conversation.history else []\<close>
\<close>

definition load_history :: "env \<Rightarrow> conversation option \<Rightarrow> exn + history_entry list" where
  "load_history env conv =
     (case conv of
        None \<Rightarrow> Inr []
      | Some c \<Rightarrow> if_str (history c) (json_loads env) (Inr []))"

text \<open>
  \<^verbatim>\<open>_record_voice_to_history\<close>: the whole body stands in a \<^verbatim>\<open>try\<close> whose handler only
  logs.
\<close>

definition record_voice_to_history :: "env \<Rightarrow> event \<Rightarrow> string \<Rightarrow> unit io" where
  "record_voice_to_history env ev transcribed_text =
     try_except
       (io_bind (call (GetCurrConversationId (unified_msg_origin ev))
                   (record_curr_conversation_id env)) (\<lambda>current_id.
        io_bind (if_str current_id io_return
                   (call (NewConversation (unified_msg_origin ev))
                      (record_new_conversation env))) (\<lambda>conversation_id.
        io_bind (call (GetConversation (unified_msg_origin ev) conversation_id)
                   (record_conversation env)) (\<lambda>conv.
        io_bind (io_lift (load_history env conv)) (\<lambda>current_history.
        call (UpdateConversation (unified_msg_origin ev) conversation_id
                (current_history @ [(''user'', voice_history_prefix @ transcribed_text)]))
          (record_update_conversation env))))))
       (\<lambda>e. io_return ())"

text \<open>
  \<^verbatim>\<open>_generate_intelligent_reply\<close>, an asynchronous generator that yields at most one
  request: the effect \<open>RequestLLM\<close> is the request it yields, and the value says whether it
  yielded.
\<close>

definition generate_intelligent_reply :: "env \<Rightarrow> event \<Rightarrow> string \<Rightarrow> bool io" where
  "generate_intelligent_reply env ev text =
     try_except
       (io_bind (call GetUsingProvider (using_provider env)) (\<lambda>llm_provider.
          if \<not> llm_provider then io_return False
          else
            io_bind (call (GetCurrConversationId (unified_msg_origin ev))
                       (reply_curr_conversation_id env)) (\<lambda>curr_cid.
            io_bind (if_str curr_cid
                       (\<lambda>cid. call (GetConversation (unified_msg_origin ev) cid)
                                (reply_conversation env))
                       (io_return None)) (\<lambda>conv.
            io_bind (call (RequestLLM (reply_prompt_prefix @ text) curr_cid conv) (Inr ()))
              (\<lambda>u. io_return True)))))
       (\<lambda>e. io_return False)"

text \<open>
  \<^verbatim>\<open>_cleanup_resources\<close>: release of the temporary files, then the sweep of the reply
  service with the default age, both in one \<^verbatim>\<open>try\<close> whose handler only logs. The
  attribute test \<^verbatim>\<open>hasattr\<close> holds once the constructor has returned.
\<close>

definition sweep_sessions :: "env \<Rightarrow> unit io" where
  "sweep_sessions env =
     (\<lambda>st. (Inr (),
            st\<lparr>probabilistic_reply_service :=
                 snd (snd (cleanup_old_sessions (cleanup_time env) default_max_age_seconds
                             (probabilistic_reply_service st))),
               trace := trace st @ [CleanupOldSessions]\<rparr>))"

definition cleanup_resources :: "env \<Rightarrow> unit io" where
  "cleanup_resources env =
     try_except
       (io_bind (call CleanupResources (cleanup_resources_result env)) (\<lambda>u. sweep_sessions env))
       (\<lambda>e. io_return ())"

text \<open>
  The source has no value for the outcome of a run; the model names the place where the
  run leaves \<^verbatim>\<open>_process_voice_message\<close> (or \<^verbatim>\<open>on_message\<close>) after the outcomes of the
  specification. \<open>ReplyNotAllowed\<close>, which the specification does not name, is the run
  whose reply is switched off or not permitted.
\<close>

datatype outcome =
    PermissionDenied
  | FileError
  | TranscriptionEmpty
  | RecordedOnly
  | ReplyNotAllowed
  | ReplySkipped
  | ReplyEmitted
  | Error

text \<open>
  The condition of the group gate (lines 109 to 112): \<^verbatim>\<open>and\<close> evaluates its operands
  from the left and stops at the first false one, so the permission service is asked only
  when the three tests before it hold.
\<close>

definition group_record_mode :: "plugin \<Rightarrow> event \<Rightarrow> bool" where
  "group_record_mode pl ev =
     (message_type ev = GROUP_MESSAGE
      \<and> truthy (enable_group_voice_recognition pl)
      \<and> enable_group_voice_reply pl = PBool False)"

definition group_gate :: "plugin \<Rightarrow> env \<Rightarrow> event \<Rightarrow> bool io" where
  "group_gate pl env ev =
     (if group_record_mode pl ev
      then call CanProcessVoice (gate_can_process_voice env)
      else io_return False)"

text \<open>The call into the reply service (line 123).\<close>

definition decide :: "env \<Rightarrow> string \<Rightarrow> bool io" where
  "decide env session_id =
     (\<lambda>st. let (verdict, svc) =
                 should_generate_reply (Some session_id) (random_value env) (decision_time env)
                   (probabilistic_reply_service st)
           in (Inr verdict,
               st\<lparr>probabilistic_reply_service := svc,
                  trace := trace st @ [ShouldGenerateReply session_id]\<rparr>))"

text \<open>The reply stage (lines 120 to 127).\<close>

definition reply_stage :: "plugin \<Rightarrow> env \<Rightarrow> event \<Rightarrow> string \<Rightarrow> outcome io" where
  "reply_stage pl env ev transcribed_text =
     io_bind (if truthy (enable_chat_reply pl)
              then call CanGenerateReply (can_generate_reply_result env)
              else io_return False) (\<lambda>allowed.
       if allowed then
         io_bind (decide env (unified_msg_origin ev)) (\<lambda>verdict.
           if verdict then
             io_bind (generate_intelligent_reply env ev transcribed_text) (\<lambda>yielded.
               io_return (if yielded then ReplyEmitted else Error))
           else io_return ReplySkipped)
       else io_return ReplyNotAllowed)"

text \<open>
  The group gate and what follows it (lines 107 to 127): a gate that holds stops the event
  and returns, otherwise the reply stage runs.
\<close>

definition gate_and_reply :: "plugin \<Rightarrow> env \<Rightarrow> event \<Rightarrow> string \<Rightarrow> outcome io" where
  "gate_and_reply pl env ev transcribed_text =
     io_bind (group_gate pl env ev) (\<lambda>gate.
       if gate
       then io_bind (call StopEvent (Inr ())) (\<lambda>u. io_return RecordedOnly)
       else reply_stage pl env ev transcribed_text)"

text \<open>The body of the \<^verbatim>\<open>try\<close> of \<^verbatim>\<open>_process_voice_message\<close> (lines 88 to 127).\<close>

definition process_body :: "plugin \<Rightarrow> env \<Rightarrow> event \<Rightarrow> string \<Rightarrow> outcome io" where
  "process_body pl env ev voice =
     io_bind (process_voice_file env voice) (\<lambda>processed_file_path.
       if_str processed_file_path
         (\<lambda>path.
            io_bind (transcribe_voice env path) (\<lambda>transcribed_text.
              if_str transcribed_text
                (\<lambda>text.
                   io_bind (record_voice_to_history env ev text) (\<lambda>u.
                     gate_and_reply pl env ev text))
                (io_return TranscriptionEmpty)))
         (io_return FileError))"

text \<open>
  \<^verbatim>\<open>_process_voice_message\<close>: both handlers only log, and the final block cleans up. The
  decorator of the method is defined outside the two source files; the model takes the
  decorated generator to behave as its body, run to its end by the caller.
\<close>

definition process_voice_message :: "plugin \<Rightarrow> env \<Rightarrow> event \<Rightarrow> string \<Rightarrow> outcome io" where
  "process_voice_message pl env ev voice =
     try_finally (try_except (process_body pl env ev voice) (\<lambda>e. io_return Error))
       (cleanup_resources env)"

text \<open>One pass of the loop of \<^verbatim>\<open>on_message\<close> at a voice component (lines 78 to 82).\<close>

definition handle_record :: "plugin \<Rightarrow> env \<Rightarrow> event \<Rightarrow> string \<Rightarrow> outcome io" where
  "handle_record pl env ev voice =
     io_bind (call CanProcessVoice (can_process_voice_result env)) (\<lambda>permitted.
       if permitted then process_voice_message pl env ev voice
       else io_return PermissionDenied)"

text \<open>
  \<^verbatim>\<open>on_message\<close>: the loop over the components of the message; \<open>envs n\<close> holds the
  answers of the collaborators for the voice component number \<open>n\<close>.
\<close>

fun on_message_loop ::
  "plugin \<Rightarrow> (nat \<Rightarrow> env) \<Rightarrow> event \<Rightarrow> component list \<Rightarrow> nat \<Rightarrow> outcome list io" where
  "on_message_loop pl envs ev [] n = io_return []"
| "on_message_loop pl envs ev (Record voice # comps) n =
     io_bind (handle_record pl (envs n) ev voice) (\<lambda>out.
     io_bind (on_message_loop pl envs ev comps (Suc n)) (\<lambda>outs. io_return (out # outs)))"
| "on_message_loop pl envs ev (OtherComponent # comps) n = on_message_loop pl envs ev comps n"

definition on_message :: "plugin \<Rightarrow> (nat \<Rightarrow> env) \<Rightarrow> event \<Rightarrow> outcome list io" where
  "on_message pl envs ev = on_message_loop pl envs ev (messages ev) 0"

text \<open>The effects a run adds to the trace, and how many of them satisfy a test.\<close>

definition new_effects :: "pstate \<Rightarrow> pstate \<Rightarrow> effect list" where
  "new_effects st st' = drop (length (trace st)) (trace st')"

definition count_effects :: "(effect \<Rightarrow> bool) \<Rightarrow> effect list \<Rightarrow> nat" where
  "count_effects P effs = length (filter P effs)"

fun is_history_append :: "effect \<Rightarrow> bool" where
  "is_history_append (UpdateConversation umo cid h) = True"
| "is_history_append _ = False"


fun is_reply_generation :: "effect \<Rightarrow> bool" where
  "is_reply_generation GetUsingProvider = True"
| "is_reply_generation (RequestLLM prompt cid conv) = True"
| "is_reply_generation _ = False"

fun is_decision :: "effect \<Rightarrow> bool" where
  "is_decision (ShouldGenerateReply session_id) = True"
| "is_decision _ = False"





text \<open>
  The conversation manager and the decoder answer every call of the recording step
  without an exception.
\<close>

fun returns :: "exn + 'a \<Rightarrow> bool" where
  "returns (Inr x) = True"
| "returns (Inl e) = False"



text \<open>The effects of the recording step, and those of the cleanup.\<close>

fun is_record_effect :: "effect \<Rightarrow> bool" where
  "is_record_effect (GetCurrConversationId umo) = True"
| "is_record_effect (NewConversation umo) = True"
| "is_record_effect (GetConversation umo cid) = True"
| "is_record_effect (UpdateConversation umo cid h) = True"
| "is_record_effect _ = False"


text \<open>An empty or absent transcript, or a transcription that raised.\<close>

definition transcription_empty :: "env \<Rightarrow> bool" where
  "transcription_empty env =
     (case transcribe_audio_result env of
        Inl e \<Rightarrow> True
      | Inr t \<Rightarrow> if_str t (\<lambda>s. False) True)"





subsection \<open>Sample inputs\<close>

text \<open>
  A run in which every collaborator answers without an exception, a group event and a
  private event, a plugin that records group voice without replying, and a state with an
  enabled policy of probability 1.
\<close>

definition sample_env :: env where
  "sample_env =
     \<lparr>can_process_voice_result = Inr True,
      process_voice_file_result = Inr (Some ''v.wav''),
      transcribe_audio_result = Inr (Some ''hello''),
      record_curr_conversation_id = Inr (Some ''c1''),
      record_new_conversation = Inr ''c2'',
      record_conversation = Inr (Some \<lparr>history = Some ''[]''\<rparr>),
      json_loads = (\<lambda>s. Inr []),
      record_update_conversation = Inr (),
      gate_can_process_voice = Inr True,
      can_generate_reply_result = Inr True,
      random_value = 1 / 2,
      decision_time = 100,
      using_provider = Inr True,
      reply_curr_conversation_id = Inr (Some ''c1''),
      reply_conversation = Inr (Some \<lparr>history = Some ''[]''\<rparr>),
      cleanup_resources_result = Inr (),
      cleanup_time = 101\<rparr>"


definition sample_private_event :: event where
  "sample_private_event =
     \<lparr>sender_name = ''ann'', group_id = [], message_type = FRIEND_MESSAGE,
      unified_msg_origin = ''s2'', messages = [Record ''v'']\<rparr>"

definition record_only_plugin :: plugin where
  "record_only_plugin =
     \<lparr>enable_chat_reply = PBool True, enable_group_voice_recognition = PBool True,
      enable_group_voice_reply = PBool False\<rparr>"

definition sample_state :: pstate where
  "sample_state =
     \<lparr>probabilistic_reply_service =
        \<lparr>config = [], enabled = PBool True, reply_probability = Fin 1,
         last_decision_time = []\<rparr>,
      trace = []\<rparr>"

section \<open>Facts about the service\<close>

lemma py_clamp_cases:
  "py_max (Fin 0) (py_min (Fin 1) f) =
     (case f of Fin x \<Rightarrow> Fin (max 0 (min 1 x)) | PosInf \<Rightarrow> Fin 1 | NegInf \<Rightarrow> Fin 0 | NaN \<Rightarrow> Fin 1)"
  by (cases f) (auto simp: py_min_def py_max_def max_def min_def)

lemma py_clamp_in_range:
  "\<exists>p. py_max (Fin 0) (py_min (Fin 1) f) = Fin p \<and> 0 \<le> p \<and> p \<le> 1"
  by (cases f) (auto simp: py_clamp_cases)

lemma load_config_probability:
  "reply_probability (snd (load_config parse s)) = reply_probability s
   \<or> (\<exists>f. reply_probability (snd (load_config parse s)) = py_max (Fin 0) (py_min (Fin 1) f))"
  unfolding load_config_def Let_def
  by (auto split: sum.splits)

lemma load_config_range:
  assumes "probability_in_range s"
  shows "probability_in_range (snd (load_config parse s))"
proof -
  from load_config_probability [of parse s] show ?thesis
  proof
    assume "reply_probability (snd (load_config parse s)) = reply_probability s"
    with assms show ?thesis by (simp add: probability_in_range_def)
  next
    assume "\<exists>f. reply_probability (snd (load_config parse s)) = py_max (Fin 0) (py_min (Fin 1) f)"
    then obtain f where "reply_probability (snd (load_config parse s)) = py_max (Fin 0) (py_min (Fin 1) f)" ..
    with py_clamp_in_range [of f] show ?thesis
      by (auto simp: probability_in_range_def)
  qed
qed

lemma load_config_ok_range:
  assumes "load_config parse s = (None, s')"
  shows "probability_in_range s'"
proof -
  from assms obtain f where "reply_probability s' = py_max (Fin 0) (py_min (Fin 1) f)"
    unfolding load_config_def Let_def by (auto split: sum.splits)
  with py_clamp_in_range [of f] show ?thesis
    by (auto simp: probability_in_range_def)
qed

lemma init_range: "init parse cfg = Inr s \<Longrightarrow> probability_in_range s"
  unfolding init_def using load_config_ok_range
  by (auto split: prod.splits option.splits)

lemma load_config_finite:
  assumes "map_of (config s) ''Chat_Reply'' = Some (PDict d)"
    and "map_of d ''Reply_Probability'' = Some (PFloat (Fin x))"
  shows "load_config parse s =
           (None, s\<lparr>enabled := dict_get d ''Enable_Probabilistic_Reply'' (PBool False),
                    reply_probability := Fin (max 0 (min 1 x))\<rparr>)"
  using assms
  by (simp add: load_config_def dict_get_def py_get_def py_float_def py_clamp_cases)

lemma load_config_no_section:
  assumes "map_of (config s) ''Chat_Reply'' = None"
  shows "load_config parse s = (None, s\<lparr>enabled := PBool False, reply_probability := Fin 0.3\<rparr>)"
  using assms
  by (simp add: load_config_def dict_get_def py_get_def py_float_def py_clamp_cases)

lemma load_config_no_keys:
  assumes "map_of (config s) ''Chat_Reply'' = Some (PDict d)"
    and "map_of d ''Enable_Probabilistic_Reply'' = None"
    and "map_of d ''Reply_Probability'' = None"
  shows "load_config parse s = (None, s\<lparr>enabled := PBool False, reply_probability := Fin 0.3\<rparr>)"
  using assms
  by (simp add: load_config_def dict_get_def py_get_def py_float_def py_clamp_cases)

lemma load_config_no_enable_key:
  assumes "map_of (config s) ''Chat_Reply'' = Some (PDict d)"
    and "map_of d ''Enable_Probabilistic_Reply'' = None"
  shows "enabled (snd (load_config parse s)) = PBool False"
  using assms
  by (simp add: load_config_def dict_get_def py_get_def Let_def split: sum.splits)

lemma load_config_no_probability_key:
  assumes "map_of (config s) ''Chat_Reply'' = Some (PDict d)"
    and "map_of d ''Reply_Probability'' = None"
  shows "load_config parse s =
           (None, s\<lparr>enabled := dict_get d ''Enable_Probabilistic_Reply'' (PBool False),
                    reply_probability := Fin 0.3\<rparr>)"
  using assms
  by (simp add: load_config_def dict_get_def py_get_def py_float_def py_clamp_cases)

lemma should_generate_reply_fst:
  "fst (should_generate_reply sid r now s) =
     (if truthy (enabled s) then fle (Fin r) (reply_probability s) else True)"
  by (simp add: should_generate_reply_def Let_def)

lemma should_generate_reply_snd:
  "snd (should_generate_reply sid r now s) =
     (if truthy (enabled s) \<and> sid \<noteq> None \<and> sid \<noteq> Some []
      then s\<lparr>last_decision_time := AList.update (the sid) now (last_decision_time s)\<rparr>
      else s)"
  by (auto simp: should_generate_reply_def Let_def split: option.splits)

lemma fold_delete_filter:
  "fold (\<lambda>k d. AList.delete k d) ks al = filter (\<lambda>(k, v). k \<notin> set ks) al"
proof (induction ks arbitrary: al)
  case Nil
  show ?case by simp
next
  case (Cons k ks)
  have "AList.delete k al = filter (\<lambda>(k', v). k \<noteq> k') al"
    by (simp add: AList.delete_eq)
  then have "fold (\<lambda>k d. AList.delete k d) (k # ks) al =
               filter (\<lambda>(k', v). k' \<notin> set ks) (filter (\<lambda>(k', v). k \<noteq> k') al)"
    using Cons.IH [of "AList.delete k al"] by simp
  also have "\<dots> = filter (\<lambda>(k', v). k' \<notin> set (k # ks)) al"
    by (auto simp: case_prod_unfold intro!: filter_cong)
  finally show ?case .
qed

lemma expired_keys_distinct:
  assumes "distinct (map fst al)" and "(k, t) \<in> set al"
  shows "k \<in> set (sessions_to_remove now age al) \<longleftrightarrow> now - t > real_of_int age"
proof
  assume "k \<in> set (sessions_to_remove now age al)"
  then obtain t' where t': "(k, t') \<in> set al" "now - t' > real_of_int age"
    by (auto simp: sessions_to_remove_def)
  from assms t'(1) have "t' = t"
    by (meson eq_key_imp_eq_value)
  with t'(2) show "now - t > real_of_int age" by simp
next
  assume "now - t > real_of_int age"
  with assms(2) show "k \<in> set (sessions_to_remove now age al)"
    by (force simp: sessions_to_remove_def)
qed

lemma sweep_is_filter:
  assumes "distinct (map fst al)"
  shows "fold (\<lambda>k d. AList.delete k d) (sessions_to_remove now age al) al =
           filter (\<lambda>(k, t). \<not> now - t > real_of_int age) al"
  unfolding fold_delete_filter
  using expired_keys_distinct [OF assms]
  by (intro filter_cong) auto


lemma cleanup_store:
  assumes "distinct (map fst (last_decision_time s))"
  shows "last_decision_time (snd (snd (cleanup_old_sessions now age s))) =
           filter (\<lambda>(k, t). \<not> now - t > real_of_int age) (last_decision_time s)"
  using sweep_is_filter [OF assms, of now age]
  by (simp add: cleanup_old_sessions_def Let_def)


lemma cleanup_distinct:
  assumes "distinct (map fst (last_decision_time s))"
  shows "distinct (map fst (last_decision_time (snd (snd (cleanup_old_sessions now age s)))))"
  unfolding cleanup_store [OF assms] using assms by (simp add: distinct_map_filter)

lemma touch_distinct:
  assumes "distinct (map fst (last_decision_time s))"
  shows "distinct (map fst (last_decision_time (snd (should_generate_reply sid r now s))))"
  using assms by (simp add: should_generate_reply_snd distinct_update)

text \<open>
  The identifiers of the store stay pairwise distinct: the constructor starts from the
  empty store, and decisions and sweeps keep the property.
\<close>

lemma init_distinct:
  assumes "init parse cfg = Inr s"
  shows "distinct (map fst (last_decision_time s))"
proof -
  have "last_decision_time (snd (load_config parse s0)) = last_decision_time s0" for s0
    unfolding load_config_def Let_def by (auto split: sum.splits)
  from this [of "\<lparr>config = cfg, enabled = PBool False, reply_probability = Fin 0.3,
                   last_decision_time = []\<rparr>"] assms
  show ?thesis
    by (auto simp: init_def split: prod.splits option.splits)
qed

lemma run_distinct:
  assumes "distinct (map fst (last_decision_time s))" and "s' \<in> set (run xs s)"
  shows "distinct (map fst (last_decision_time s'))"
  using assms
proof (induction xs arbitrary: s)
  case Nil
  then show ?case by simp
next
  case (Cons x xs)
  have step: "distinct (map fst (last_decision_time (apply_op x s)))"
    using Cons.prems(1) by (cases x) (simp_all add: touch_distinct cleanup_distinct)
  from Cons.prems(2) consider "s' = s" | "s' \<in> set (run xs (apply_op x s))"
    by auto
  then show ?case
  proof cases
    case 1
    with Cons.prems(1) show ?thesis by simp
  next
    case 2
    from Cons.IH [OF step 2] show ?thesis .
  qed
qed

lemma set_update_subset: "set (AList.update k v al) \<subseteq> insert (k, v) (set al)"
  by (induction al) auto

lemma map_of_fold_delete:
  "map_of (fold (\<lambda>k d. AList.delete k d) ks al) k' =
     (if k' \<in> set ks then None else map_of al k')"
  by (induction ks arbitrary: al) (auto simp: delete_conv')

lemma apply_op_pairs:
  assumes "(k, t') \<in> set (last_decision_time (apply_op x s))"
  shows "(k, t') \<in> set (last_decision_time s) \<or> t' = op_time x"
proof (cases x)
  case (Decide sid r now)
  with assms set_update_subset [of "the sid" now "last_decision_time s"] show ?thesis
    by (auto simp: should_generate_reply_snd split: if_splits)
next
  case (Sweep now age)
  with assms show ?thesis
    by (auto simp: cleanup_old_sessions_def Let_def fold_delete_filter)
qed

lemma apply_op_lookup:
  assumes bound: "\<forall>(k, u) \<in> set (last_decision_time s). u \<le> op_time x"
    and before: "map_of (last_decision_time s) sid = Some t"
    and after: "map_of (last_decision_time (apply_op x s)) sid = Some t'"
  shows "t \<le> t'"
proof (cases x)
  case (Decide session_id r now)
  from before have "(sid, t) \<in> set (last_decision_time s)"
    by (rule map_of_SomeD)
  with bound Decide have "t \<le> now" by auto
  with before after Decide show ?thesis
    by (auto simp: should_generate_reply_snd update_conv' split: if_splits)
next
  case (Sweep now age)
  with before after show ?thesis
    by (auto simp: cleanup_old_sessions_def Let_def map_of_fold_delete split: if_splits)
qed

lemma sweep_lookup:
  "map_of (last_decision_time (apply_op (Sweep now age) s)) sid = None
   \<or> map_of (last_decision_time (apply_op (Sweep now age) s)) sid
        = map_of (last_decision_time s) sid"
  by (simp add: cleanup_old_sessions_def Let_def map_of_fold_delete)

lemma run_pairs:
  assumes "s' \<in> set (run xs s)" and "(k, t') \<in> set (last_decision_time s')"
  shows "(k, t') \<in> set (last_decision_time s) \<or> t' \<in> op_time ` set xs"
  using assms
proof (induction xs arbitrary: s)
  case Nil
  then show ?case by simp
next
  case (Cons x xs)
  from Cons.prems(1) consider "s' = s" | "s' \<in> set (run xs (apply_op x s))"
    by auto
  then show ?case
  proof cases
    case 1
    with Cons.prems(2) show ?thesis by simp
  next
    case 2
    from Cons.IH [OF 2 Cons.prems(2)] apply_op_pairs [of k t' x s]
    show ?thesis by auto
  qed
qed

lemma bound_step:
  assumes "sorted (map op_time (x # xs))"
    and "\<forall>(k, u) \<in> set (last_decision_time s). \<forall>y \<in> set (x # xs). u \<le> op_time y"
  shows "\<forall>(k, u) \<in> set (last_decision_time (apply_op x s)). \<forall>y \<in> set xs. u \<le> op_time y"
proof (clarify)
  fix k u y
  assume ku: "(k, u) \<in> set (last_decision_time (apply_op x s))" and y: "y \<in> set xs"
  from apply_op_pairs [OF ku] show "u \<le> op_time y"
  proof
    assume "(k, u) \<in> set (last_decision_time s)"
    with assms(2) y show ?thesis by auto
  next
    assume "u = op_time x"
    with assms(1) y show ?thesis by auto
  qed
qed

lemma run_mono:
  assumes "sorted (map op_time xs)"
    and "\<forall>(k, u) \<in> set (last_decision_time s). \<forall>y \<in> set xs. u \<le> op_time y"
    and "s' \<in> set (run xs s)"
    and "map_of (last_decision_time s) sid = Some t"
    and "map_of (last_decision_time s') sid = Some t'"
  shows "t \<le> t'"
  using assms
proof (induction xs arbitrary: s t)
  case Nil
  then show ?case by simp
next
  case (Cons x xs)
  let ?s1 = "apply_op x s"
  from Cons.prems(3) consider "s' = s" | "s' \<in> set (run xs ?s1)"
    by auto
  then show ?case
  proof cases
    case 1
    with Cons.prems(4,5) show ?thesis by simp
  next
    case 2
    have sorted': "sorted (map op_time xs)"
      using Cons.prems(1) by simp
    have bound': "\<forall>(k, u) \<in> set (last_decision_time ?s1). \<forall>y \<in> set xs. u \<le> op_time y"
      by (rule bound_step [OF Cons.prems(1,2)])
    have in_s: "(sid, t) \<in> set (last_decision_time s)"
      using Cons.prems(4) by (rule map_of_SomeD)
    with Cons.prems(2) have t_x: "t \<le> op_time x" by auto
    show ?thesis
    proof (cases "map_of (last_decision_time ?s1) sid")
      case (Some t1)
      have "\<forall>(k, u) \<in> set (last_decision_time s). u \<le> op_time x"
        using Cons.prems(2) by auto
      from apply_op_lookup [OF this Cons.prems(4) Some] have "t \<le> t1" .
      also from Cons.IH [OF sorted' bound' 2 Some Cons.prems(5)] have "t1 \<le> t'" .
      finally show ?thesis .
    next
      case None
      then have absent: "(sid, t') \<notin> set (last_decision_time ?s1)"
        by (metis map_of_eq_None_iff image_eqI fst_conv)
      have "(sid, t') \<in> set (last_decision_time s')"
        using Cons.prems(5) by (rule map_of_SomeD)
      from run_pairs [OF 2 this] absent obtain y where "y \<in> set xs" "t' = op_time y"
        by auto
      with Cons.prems(1) have "op_time x \<le> t'" by auto
      with t_x show ?thesis by simp
    qed
  qed
qed

lemma run_length: "length (run xs s) = Suc (length xs)"
  by (induction xs arbitrary: s) auto

lemma run_nth_mono:
  assumes "sorted (map op_time xs)"
    and "\<forall>(k, u) \<in> set (last_decision_time s). \<forall>y \<in> set xs. u \<le> op_time y"
    and "i \<le> j" and "j \<le> length xs"
    and "map_of (last_decision_time (run xs s ! i)) sid = Some t"
    and "map_of (last_decision_time (run xs s ! j)) sid = Some t'"
  shows "t \<le> t'"
  using assms
proof (induction xs arbitrary: s i j)
  case Nil
  then show ?case by simp
next
  case (Cons x xs)
  show ?case
  proof (cases i)
    case 0
    have "run (x # xs) s ! j \<in> set (run (x # xs) s)"
      using Cons.prems(4) by (intro nth_mem) (simp add: run_length)
    from run_mono [OF Cons.prems(1,2) this _ Cons.prems(6)] Cons.prems(5) 0
    show ?thesis by simp
  next
    case (Suc i')
    with Cons.prems(3) obtain j' where j: "j = Suc j'" by (cases j) auto
    have sorted': "sorted (map op_time xs)"
      using Cons.prems(1) by simp
    have bound': "\<forall>(k, u) \<in> set (last_decision_time (apply_op x s)). \<forall>y \<in> set xs. u \<le> op_time y"
      by (rule bound_step [OF Cons.prems(1,2)])
    show ?thesis
      using Cons.IH [OF sorted' bound', of i' j'] Cons.prems(3-6) Suc j
      by simp
  qed
qed

section \<open>Facts about the pipeline\<close>

lemma process_voice_file_run:
  "process_voice_file env voice st =
     (Inr (case process_voice_file_result env of Inl e \<Rightarrow> None | Inr p \<Rightarrow> p),
      st\<lparr>trace := trace st @ [ProcessVoiceFile voice]\<rparr>)"
  by (simp add: process_voice_file_def try_except_def call_def io_return_def split: sum.splits)

lemma transcribe_voice_run:
  "transcribe_voice env path st =
     (Inr (case transcribe_audio_result env of Inl e \<Rightarrow> None | Inr t \<Rightarrow> t),
      st\<lparr>trace := trace st @ [TranscribeAudio path]\<rparr>)"
  by (simp add: transcribe_voice_def try_except_def call_def io_return_def split: sum.splits)

lemma cleanup_resources_run:
  "cleanup_resources env st =
     (Inr (),
      case cleanup_resources_result env of
        Inl e \<Rightarrow> st\<lparr>trace := trace st @ [CleanupResources]\<rparr>
      | Inr u \<Rightarrow>
          st\<lparr>probabilistic_reply_service :=
               snd (snd (cleanup_old_sessions (cleanup_time env) default_max_age_seconds
                           (probabilistic_reply_service st))),
             trace := trace st @ [CleanupResources, CleanupOldSessions]\<rparr>)"
  by (simp add: cleanup_resources_def try_except_def io_bind_def call_def io_return_def
        sweep_sessions_def split: sum.splits)






















lemma process_body_empty_transcription:
  assumes "process_voice_file_result env = Inr (Some path)" and "path \<noteq> []"
    and "transcription_empty env"
  shows "process_body pl env ev voice st =
           (Inr TranscriptionEmpty,
            st\<lparr>trace := trace st @ [ProcessVoiceFile voice, TranscribeAudio path]\<rparr>)"
  using assms
  by (auto simp: process_body_def io_bind_def process_voice_file_run transcribe_voice_run
        if_str_def io_return_def transcription_empty_def split: sum.splits option.splits if_splits)























section \<open>The claims about the decision engine\<close>

text \<open>
  Claim C1. With the policy disabled \<^verbatim>\<open>should_generate_reply\<close> returns true whatever the
  draw is. With the policy enabled it returns true exactly when the draw \<open>r\<close> is at most
  the stored probability: for a draw of \<open>[0, 1)\<close>, probability 1 always replies and
  probability 0 replies only on the draw 0.
\<close>

theorem should_generate_reply_verdict:
  "(\<not> truthy (enabled s) \<longrightarrow> fst (should_generate_reply sid r now s))
   \<and> (truthy (enabled s) \<longrightarrow>
        fst (should_generate_reply sid r now s) = fle (Fin r) (reply_probability s))
   \<and> (truthy (enabled s) \<and> reply_probability s = Fin p \<longrightarrow>
        fst (should_generate_reply sid r now s) = (r \<le> p))
   \<and> (truthy (enabled s) \<and> reply_probability s = Fin 1 \<and> 0 \<le> r \<and> r < 1 \<longrightarrow>
        fst (should_generate_reply sid r now s))
   \<and> (truthy (enabled s) \<and> reply_probability s = Fin 0 \<and> 0 \<le> r \<and> r < 1 \<longrightarrow>
        fst (should_generate_reply sid r now s) = (r = 0))"
proof (cases "truthy (enabled s)")
  case False
  then show ?thesis by (simp add: should_generate_reply_fst)
next
  case True
  then have v: "fst (should_generate_reply sid r now s) = fle (Fin r) (reply_probability s)"
    by (simp add: should_generate_reply_fst)
  show ?thesis unfolding v using True by auto
qed

text \<open>The theorem of C1 at a disabled policy, at probability 1 and at probability 0.\<close>

theorem should_generate_reply_verdict_witness:
  "\<not> truthy (enabled \<lparr>config = [], enabled = PBool False, reply_probability = Fin 0,
                       last_decision_time = []\<rparr>)
   \<and> fst (should_generate_reply (Some ''s1'') (1/2) 100
            \<lparr>config = [], enabled = PBool False, reply_probability = Fin 0,
             last_decision_time = []\<rparr>)
   \<and> truthy (enabled \<lparr>config = [], enabled = PBool True, reply_probability = Fin 1,
                       last_decision_time = []\<rparr>)
   \<and> (0::real) \<le> 1/2 \<and> (1/2::real) < 1
   \<and> fst (should_generate_reply (Some ''s1'') (1/2) 100
            \<lparr>config = [], enabled = PBool True, reply_probability = Fin 1,
             last_decision_time = []\<rparr>)
   \<and> \<not> fst (should_generate_reply (Some ''s1'') (1/2) 100
            \<lparr>config = [], enabled = PBool True, reply_probability = Fin 0,
             last_decision_time = []\<rparr>)
   \<and> fst (should_generate_reply (Some ''s1'') 0 100
            \<lparr>config = [], enabled = PBool True, reply_probability = Fin 0,
             last_decision_time = []\<rparr>)"
  using should_generate_reply_verdict
          [of "\<lparr>config = [], enabled = PBool False, reply_probability = Fin 0,
                last_decision_time = []\<rparr>" "Some ''s1''" "1/2" 100 0]
        should_generate_reply_verdict
          [of "\<lparr>config = [], enabled = PBool True, reply_probability = Fin 1,
                last_decision_time = []\<rparr>" "Some ''s1''" "1/2" 100 1]
        should_generate_reply_verdict
          [of "\<lparr>config = [], enabled = PBool True, reply_probability = Fin 0,
                last_decision_time = []\<rparr>" "Some ''s1''" "1/2" 100 0]
        should_generate_reply_verdict
          [of "\<lparr>config = [], enabled = PBool True, reply_probability = Fin 0,
                last_decision_time = []\<rparr>" "Some ''s1''" 0 100 0]
  by simp

text \<open>
  Claim C2. After the initial load and after every reload the stored probability lies in
  the unit interval: a constructor that returns has it there, and a reload keeps it there
  whether it returns or raises. A finite configured number \<open>x\<close> is stored as
  \<open>max 0 (min 1 x)\<close>, so 1.5 is stored as 1 and -0.2 as 0.
\<close>

theorem reply_probability_clamped:
  "(init parse cfg = Inr s \<longrightarrow> probability_in_range s)
   \<and> (probability_in_range s0 \<longrightarrow> probability_in_range (snd (update_config parse cfg s0)))
   \<and> (map_of cfg ''Chat_Reply'' = Some (PDict d)
        \<and> map_of d ''Reply_Probability'' = Some (PFloat (Fin x)) \<longrightarrow>
        init parse cfg =
          Inr \<lparr>config = cfg, enabled = dict_get d ''Enable_Probabilistic_Reply'' (PBool False),
               reply_probability = Fin (max 0 (min 1 x)), last_decision_time = []\<rparr>
        \<and> fst (update_config parse cfg s0) = None
        \<and> reply_probability (snd (update_config parse cfg s0)) = Fin (max 0 (min 1 x)))
   \<and> reply_probability
        (snd (update_config parse
               [(''Chat_Reply'', PDict [(''Reply_Probability'', PFloat (Fin 1.5))])] s0)) = Fin 1
   \<and> reply_probability
        (snd (update_config parse
               [(''Chat_Reply'', PDict [(''Reply_Probability'', PFloat (Fin (- 0.2)))])] s0)) = Fin 0
   \<and> init parse [(''Chat_Reply'', PDict [(''Reply_Probability'', PFloat (Fin 1.5))])] =
        Inr \<lparr>config = [(''Chat_Reply'', PDict [(''Reply_Probability'', PFloat (Fin 1.5))])],
             enabled = PBool False, reply_probability = Fin 1, last_decision_time = []\<rparr>
   \<and> init parse [(''Chat_Reply'', PDict [(''Reply_Probability'', PFloat (Fin (- 0.2)))])] =
        Inr \<lparr>config = [(''Chat_Reply'', PDict [(''Reply_Probability'', PFloat (Fin (- 0.2)))])],
             enabled = PBool False, reply_probability = Fin 0, last_decision_time = []\<rparr>"
proof -
  have a: "init parse cfg = Inr s \<longrightarrow> probability_in_range s"
    using init_range by blast
  have b: "probability_in_range s0 \<longrightarrow> probability_in_range (snd (update_config parse cfg s0))"
  proof
    assume "probability_in_range s0"
    then have "probability_in_range (s0\<lparr>config := cfg\<rparr>)"
      by (simp add: probability_in_range_def)
    then show "probability_in_range (snd (update_config parse cfg s0))"
      unfolding update_config_def by (rule load_config_range)
  qed
  have c: "init parse cfg =
          Inr \<lparr>config = cfg, enabled = dict_get d ''Enable_Probabilistic_Reply'' (PBool False),
               reply_probability = Fin (max 0 (min 1 x)), last_decision_time = []\<rparr>
        \<and> fst (update_config parse cfg s0) = None
        \<and> reply_probability (snd (update_config parse cfg s0)) = Fin (max 0 (min 1 x))"
    if "map_of cfg ''Chat_Reply'' = Some (PDict d)"
      and "map_of d ''Reply_Probability'' = Some (PFloat (Fin x))" for cfg d x
    using that
    by (simp add: init_def update_config_def load_config_finite [where d = d and x = x])
  note hi = c [of "[(''Chat_Reply'', PDict [(''Reply_Probability'', PFloat (Fin 1.5))])]"
                "[(''Reply_Probability'', PFloat (Fin 1.5))]" "1.5"]
  note lo = c [of "[(''Chat_Reply'', PDict [(''Reply_Probability'', PFloat (Fin (- 0.2)))])]"
                "[(''Reply_Probability'', PFloat (Fin (- 0.2)))]" "- 0.2"]
  have e1: "reply_probability
        (snd (update_config parse
               [(''Chat_Reply'', PDict [(''Reply_Probability'', PFloat (Fin 1.5))])] s0)) = Fin 1"
    using hi by simp
  have e2: "reply_probability
        (snd (update_config parse
               [(''Chat_Reply'', PDict [(''Reply_Probability'', PFloat (Fin (- 0.2)))])] s0)) = Fin 0"
    using lo by simp
  have e3: "init parse [(''Chat_Reply'', PDict [(''Reply_Probability'', PFloat (Fin 1.5))])] =
        Inr \<lparr>config = [(''Chat_Reply'', PDict [(''Reply_Probability'', PFloat (Fin 1.5))])],
             enabled = PBool False, reply_probability = Fin 1, last_decision_time = []\<rparr>"
    using hi by (simp add: dict_get_def)
  have e4: "init parse [(''Chat_Reply'', PDict [(''Reply_Probability'', PFloat (Fin (- 0.2)))])] =
        Inr \<lparr>config = [(''Chat_Reply'', PDict [(''Reply_Probability'', PFloat (Fin (- 0.2)))])],
             enabled = PBool False, reply_probability = Fin 0, last_decision_time = []\<rparr>"
    using lo by (simp add: dict_get_def)
  from a b c [of cfg d x] e1 e2 e3 e4 show ?thesis by blast
qed

text \<open>
  The theorem of C2 at an integer setting above the range, at a reload that raises on a
  string that is no number, and at a setting inside the range.
\<close>

theorem reply_probability_clamped_witness:
  "init (\<lambda>_. None) [(''Chat_Reply'', PDict [(''Reply_Probability'', PInt 7)])] =
     Inr \<lparr>config = [(''Chat_Reply'', PDict [(''Reply_Probability'', PInt 7)])],
          enabled = PBool False, reply_probability = Fin 1, last_decision_time = []\<rparr>
   \<and> probability_in_range
        \<lparr>config = [(''Chat_Reply'', PDict [(''Reply_Probability'', PInt 7)])],
         enabled = PBool False, reply_probability = Fin 1, last_decision_time = []\<rparr>
   \<and> probability_in_range
        \<lparr>config = [], enabled = PBool True, reply_probability = Fin 0.3,
         last_decision_time = []\<rparr>
   \<and> probability_in_range
        (snd (update_config (\<lambda>_. None)
               [(''Chat_Reply'', PDict [(''Reply_Probability'', PStr ''abc'')])]
               \<lparr>config = [], enabled = PBool True, reply_probability = Fin 0.3,
                last_decision_time = []\<rparr>))
   \<and> map_of [(''Chat_Reply'', PDict [(''Reply_Probability'', PFloat (Fin 0.25))])] ''Chat_Reply''
        = Some (PDict [(''Reply_Probability'', PFloat (Fin 0.25))])
   \<and> map_of [(''Reply_Probability'', PFloat (Fin 0.25))] ''Reply_Probability''
        = Some (PFloat (Fin 0.25))
   \<and> reply_probability
        (snd (update_config (\<lambda>_. None)
               [(''Chat_Reply'', PDict [(''Reply_Probability'', PFloat (Fin 0.25))])]
               \<lparr>config = [], enabled = PBool True, reply_probability = Fin 0.3,
                last_decision_time = []\<rparr>)) = Fin 0.25"
proof -
  have i: "init (\<lambda>_. None) [(''Chat_Reply'', PDict [(''Reply_Probability'', PInt 7)])] =
     Inr \<lparr>config = [(''Chat_Reply'', PDict [(''Reply_Probability'', PInt 7)])],
          enabled = PBool False, reply_probability = Fin 1, last_decision_time = []\<rparr>"
    by (simp add: init_def load_config_def dict_get_def py_get_def py_float_def py_clamp_cases)
  have r: "probability_in_range
        \<lparr>config = [], enabled = PBool True, reply_probability = Fin 0.3,
         last_decision_time = []\<rparr>"
    by (simp add: probability_in_range_def)
  show ?thesis
    using i r
      reply_probability_clamped
        [of "\<lambda>_. None" "[(''Chat_Reply'', PDict [(''Reply_Probability'', PInt 7)])]"
            "\<lparr>config = [(''Chat_Reply'', PDict [(''Reply_Probability'', PInt 7)])],
              enabled = PBool False, reply_probability = Fin 1, last_decision_time = []\<rparr>"
            "\<lparr>config = [], enabled = PBool True, reply_probability = Fin 0.3,
              last_decision_time = []\<rparr>"]
      reply_probability_clamped
        [of "\<lambda>_. None" "[(''Chat_Reply'', PDict [(''Reply_Probability'', PStr ''abc'')])]" _
            "\<lparr>config = [], enabled = PBool True, reply_probability = Fin 0.3,
              last_decision_time = []\<rparr>"]
      reply_probability_clamped
        [of "\<lambda>_. None" "[(''Chat_Reply'', PDict [(''Reply_Probability'', PFloat (Fin 0.25))])]" _
            "\<lparr>config = [], enabled = PBool True, reply_probability = Fin 0.3,
              last_decision_time = []\<rparr>"
            "[(''Reply_Probability'', PFloat (Fin 0.25))]" "0.25"]
    by simp
qed

text \<open>
  Claim C10. A configuration without the section \<^verbatim>\<open>Chat_Reply\<close>, or with a section
  that lacks the keys, gives the disabled policy (\<^verbatim>\<open>Enable_Probabilistic_Reply\<close> false)
  and the probability 0.3, at the initial load and at every reload; each key alone falls
  back to its own default.
\<close>

theorem defaults_when_omitted:
  "(map_of cfg ''Chat_Reply'' = None \<longrightarrow>
      init parse cfg =
        Inr \<lparr>config = cfg, enabled = PBool False, reply_probability = Fin 0.3,
             last_decision_time = []\<rparr>
      \<and> update_config parse cfg s =
          (None, s\<lparr>config := cfg, enabled := PBool False, reply_probability := Fin 0.3\<rparr>))
   \<and> (map_of cfg ''Chat_Reply'' = Some (PDict d)
        \<and> map_of d ''Enable_Probabilistic_Reply'' = None
        \<and> map_of d ''Reply_Probability'' = None \<longrightarrow>
      init parse cfg =
        Inr \<lparr>config = cfg, enabled = PBool False, reply_probability = Fin 0.3,
             last_decision_time = []\<rparr>
      \<and> update_config parse cfg s =
          (None, s\<lparr>config := cfg, enabled := PBool False, reply_probability := Fin 0.3\<rparr>))
   \<and> (map_of cfg ''Chat_Reply'' = Some (PDict d)
        \<and> map_of d ''Enable_Probabilistic_Reply'' = None \<longrightarrow>
      (\<forall>s'. init parse cfg = Inr s' \<longrightarrow> enabled s' = PBool False)
      \<and> enabled (snd (update_config parse cfg s)) = PBool False)
   \<and> (map_of cfg ''Chat_Reply'' = Some (PDict d)
        \<and> map_of d ''Reply_Probability'' = None \<longrightarrow>
      init parse cfg =
        Inr \<lparr>config = cfg, enabled = dict_get d ''Enable_Probabilistic_Reply'' (PBool False),
             reply_probability = Fin 0.3, last_decision_time = []\<rparr>
      \<and> update_config parse cfg s =
          (None, s\<lparr>config := cfg,
                   enabled := dict_get d ''Enable_Probabilistic_Reply'' (PBool False),
                   reply_probability := Fin 0.3\<rparr>))"
proof (intro conjI impI)
  assume "map_of cfg ''Chat_Reply'' = None"
  then show "init parse cfg =
        Inr \<lparr>config = cfg, enabled = PBool False, reply_probability = Fin 0.3,
             last_decision_time = []\<rparr>"
    by (simp add: init_def load_config_no_section)
next
  assume "map_of cfg ''Chat_Reply'' = None"
  then show "update_config parse cfg s =
          (None, s\<lparr>config := cfg, enabled := PBool False, reply_probability := Fin 0.3\<rparr>)"
    by (simp add: update_config_def load_config_no_section)
next
  assume a: "map_of cfg ''Chat_Reply'' = Some (PDict d)
        \<and> map_of d ''Enable_Probabilistic_Reply'' = None
        \<and> map_of d ''Reply_Probability'' = None"
  then show "init parse cfg =
        Inr \<lparr>config = cfg, enabled = PBool False, reply_probability = Fin 0.3,
             last_decision_time = []\<rparr>"
    by (simp add: init_def load_config_no_keys [where d = d])
  from a show "update_config parse cfg s =
          (None, s\<lparr>config := cfg, enabled := PBool False, reply_probability := Fin 0.3\<rparr>)"
    by (simp add: update_config_def load_config_no_keys [where d = d])
next
  assume a: "map_of cfg ''Chat_Reply'' = Some (PDict d)
        \<and> map_of d ''Enable_Probabilistic_Reply'' = None"
  show "\<forall>s'. init parse cfg = Inr s' \<longrightarrow> enabled s' = PBool False"
  proof (intro allI impI)
    fix s' assume i: "init parse cfg = Inr s'"
    let ?s0 = "\<lparr>config = cfg, enabled = PBool False, reply_probability = Fin 0.3,
             last_decision_time = []\<rparr>"
    from i have "s' = snd (load_config parse ?s0)"
      by (auto simp: init_def split: prod.splits option.splits)
    with load_config_no_enable_key [of ?s0 d parse] a show "enabled s' = PBool False"
      by simp
  qed
  from a show "enabled (snd (update_config parse cfg s)) = PBool False"
    by (simp add: update_config_def load_config_no_enable_key [where d = d])
next
  assume a: "map_of cfg ''Chat_Reply'' = Some (PDict d)
        \<and> map_of d ''Reply_Probability'' = None"
  then show "init parse cfg =
        Inr \<lparr>config = cfg, enabled = dict_get d ''Enable_Probabilistic_Reply'' (PBool False),
             reply_probability = Fin 0.3, last_decision_time = []\<rparr>"
    by (simp add: init_def load_config_no_probability_key [where d = d])
  from a show "update_config parse cfg s =
          (None, s\<lparr>config := cfg,
                   enabled := dict_get d ''Enable_Probabilistic_Reply'' (PBool False),
                   reply_probability := Fin 0.3\<rparr>)"
    by (simp add: update_config_def load_config_no_probability_key [where d = d])
qed

text \<open>
  The theorem of C10 at a configuration without the section, at sections without either
  key, and at sections that lack one key only.
\<close>

theorem defaults_when_omitted_witness:
  "map_of [(''Output_Settings'', PDict [(''Console_Output'', PBool True)])] ''Chat_Reply'' = None
   \<and> init (\<lambda>_. None) [(''Output_Settings'', PDict [(''Console_Output'', PBool True)])] =
        Inr \<lparr>config = [(''Output_Settings'', PDict [(''Console_Output'', PBool True)])],
             enabled = PBool False, reply_probability = Fin 0.3, last_decision_time = []\<rparr>
   \<and> map_of [(''Chat_Reply'', PDict [(''Enable_Chat_Reply'', PBool True)])] ''Chat_Reply''
        = Some (PDict [(''Enable_Chat_Reply'', PBool True)])
   \<and> map_of [(''Enable_Chat_Reply'', PBool True)] ''Enable_Probabilistic_Reply'' = None
   \<and> map_of [(''Enable_Chat_Reply'', PBool True)] ''Reply_Probability'' = None
   \<and> update_config (\<lambda>_. None) [(''Chat_Reply'', PDict [(''Enable_Chat_Reply'', PBool True)])]
        \<lparr>config = [], enabled = PBool True, reply_probability = Fin 1,
         last_decision_time = [(''s1'', 5)]\<rparr> =
        (None, \<lparr>config = [(''Chat_Reply'', PDict [(''Enable_Chat_Reply'', PBool True)])],
                enabled = PBool False, reply_probability = Fin 0.3,
                last_decision_time = [(''s1'', 5)]\<rparr>)
   \<and> map_of [(''Chat_Reply'', PDict [(''Reply_Probability'', PStr ''abc'')])] ''Chat_Reply''
        = Some (PDict [(''Reply_Probability'', PStr ''abc'')])
   \<and> map_of [(''Reply_Probability'', PStr ''abc'')] ''Enable_Probabilistic_Reply'' = None
   \<and> enabled (snd (update_config (\<lambda>_. None)
                 [(''Chat_Reply'', PDict [(''Reply_Probability'', PStr ''abc'')])]
                 \<lparr>config = [], enabled = PBool True, reply_probability = Fin 1,
                  last_decision_time = [(''s1'', 5)]\<rparr>)) = PBool False
   \<and> map_of [(''Chat_Reply'', PDict [(''Enable_Probabilistic_Reply'', PBool True)])] ''Chat_Reply''
        = Some (PDict [(''Enable_Probabilistic_Reply'', PBool True)])
   \<and> map_of [(''Enable_Probabilistic_Reply'', PBool True)] ''Reply_Probability'' = None
   \<and> init (\<lambda>_. None) [(''Chat_Reply'', PDict [(''Enable_Probabilistic_Reply'', PBool True)])] =
        Inr \<lparr>config = [(''Chat_Reply'', PDict [(''Enable_Probabilistic_Reply'', PBool True)])],
             enabled = PBool True, reply_probability = Fin 0.3, last_decision_time = []\<rparr>"
  using defaults_when_omitted
          [of "[(''Output_Settings'', PDict [(''Console_Output'', PBool True)])]" "\<lambda>_. None"]
        defaults_when_omitted
          [of "[(''Chat_Reply'', PDict [(''Enable_Chat_Reply'', PBool True)])]"
              "\<lambda>_. None"
              "\<lparr>config = [], enabled = PBool True, reply_probability = Fin 1,
                last_decision_time = [(''s1'', 5)]\<rparr>"
              "[(''Enable_Chat_Reply'', PBool True)]"]
        defaults_when_omitted
          [of "[(''Chat_Reply'', PDict [(''Reply_Probability'', PStr ''abc'')])]"
              "\<lambda>_. None"
              "\<lparr>config = [], enabled = PBool True, reply_probability = Fin 1,
                last_decision_time = [(''s1'', 5)]\<rparr>"
              "[(''Reply_Probability'', PStr ''abc'')]"]
        defaults_when_omitted
          [of "[(''Chat_Reply'', PDict [(''Enable_Probabilistic_Reply'', PBool True)])]"
              "\<lambda>_. None" _
              "[(''Enable_Probabilistic_Reply'', PBool True)]"]
  by (simp add: dict_get_def)

text \<open>
  Claim C6, as stated, fails: with the policy disabled \<^verbatim>\<open>should_generate_reply\<close> returns
  before it reaches the assignment to \<^verbatim>\<open>_last_decision_time\<close>, so a call with the
  session \<^verbatim>\<open>s1\<close> at time 100 leaves the empty store empty.
\<close>

theorem disabled_policy_does_not_touch_store:
  "last_decision_time
     (snd (should_generate_reply (Some ''s1'') (1/2) 100
            \<lparr>config = [], enabled = PBool False, reply_probability = Fin 0.3,
             last_decision_time = []\<rparr>)) = []
   \<and> map_of (last_decision_time
        (snd (should_generate_reply (Some ''s1'') (1/2) 100
               \<lparr>config = [], enabled = PBool False, reply_probability = Fin 0.3,
                last_decision_time = []\<rparr>))) ''s1'' \<noteq> Some 100"
  by (simp add: should_generate_reply_def)

text \<open>
  Claim C6, amended. A call with the policy enabled sets the entry of a non-empty session
  identifier to the current time, whatever the verdict is, and changes nothing else; a call
  with an empty or absent identifier, and every call with the policy disabled, leaves the
  whole service unchanged.
\<close>

theorem enabled_decision_touches_store:
  "(truthy (enabled s) \<and> sid \<noteq> [] \<longrightarrow>
      snd (should_generate_reply (Some sid) r now s) =
        s\<lparr>last_decision_time := AList.update sid now (last_decision_time s)\<rparr>
      \<and> map_of (last_decision_time (snd (should_generate_reply (Some sid) r now s))) =
          (map_of (last_decision_time s))(sid \<mapsto> now))
   \<and> snd (should_generate_reply None r now s) = s
   \<and> snd (should_generate_reply (Some []) r now s) = s
   \<and> (\<not> truthy (enabled s) \<longrightarrow> snd (should_generate_reply session_id r now s) = s)"
  by (simp add: should_generate_reply_snd update_conv')

text \<open>
  The amended C6 at an enabled policy whose verdict is a refusal, and at a policy disabled
  by the setting 0.
\<close>

theorem enabled_decision_touches_store_witness:
  "truthy (enabled \<lparr>config = [], enabled = PBool True, reply_probability = Fin 0.3,
                    last_decision_time = [(''s0'', 1), (''s1'', 2)]\<rparr>)
   \<and> ''s1'' \<noteq> []
   \<and> snd (should_generate_reply (Some ''s1'') (9/10) 100
            \<lparr>config = [], enabled = PBool True, reply_probability = Fin 0.3,
             last_decision_time = [(''s0'', 1), (''s1'', 2)]\<rparr>) =
        \<lparr>config = [], enabled = PBool True, reply_probability = Fin 0.3,
         last_decision_time = [(''s0'', 1), (''s1'', 100)]\<rparr>
   \<and> \<not> fst (should_generate_reply (Some ''s1'') (9/10) 100
            \<lparr>config = [], enabled = PBool True, reply_probability = Fin 0.3,
             last_decision_time = [(''s0'', 1), (''s1'', 2)]\<rparr>)
   \<and> \<not> truthy (enabled \<lparr>config = [], enabled = PInt 0, reply_probability = Fin 0.3,
                    last_decision_time = [(''s0'', 1)]\<rparr>)
   \<and> snd (should_generate_reply (Some ''s1'') (9/10) 100
            \<lparr>config = [], enabled = PInt 0, reply_probability = Fin 0.3,
             last_decision_time = [(''s0'', 1)]\<rparr>) =
        \<lparr>config = [], enabled = PInt 0, reply_probability = Fin 0.3,
         last_decision_time = [(''s0'', 1)]\<rparr>"
  using enabled_decision_touches_store
          [of "\<lparr>config = [], enabled = PBool True, reply_probability = Fin 0.3,
                last_decision_time = [(''s0'', 1), (''s1'', 2)]\<rparr>" "''s1''" "9/10" 100]
        enabled_decision_touches_store
          [of "\<lparr>config = [], enabled = PInt 0, reply_probability = Fin 0.3,
                last_decision_time = [(''s0'', 1)]\<rparr>" _ "9/10" 100 "Some ''s1''"]
  by (simp add: should_generate_reply_fst)





text \<open>
  Claim C8, as stated, fails: a decision overwrites the timestamp with the reading of
  \<^verbatim>\<open>time.time()\<close>, whatever the stored value is, and the wall clock can be set back. Two
  decisions for \<^verbatim>\<open>s1\<close> with the readings 10 and 5 lower the timestamp from 10 to 5.
\<close>

theorem refresh_can_lower_timestamp:
  "map_of (last_decision_time
      (run [Decide (Some ''s1'') 0 10, Decide (Some ''s1'') 0 5]
           \<lparr>config = [], enabled = PBool True, reply_probability = Fin 0.3,
            last_decision_time = []\<rparr> ! 1)) ''s1'' = Some 10
   \<and> map_of (last_decision_time
      (run [Decide (Some ''s1'') 0 10, Decide (Some ''s1'') 0 5]
           \<lparr>config = [], enabled = PBool True, reply_probability = Fin 0.3,
            last_decision_time = []\<rparr> ! 2)) ''s1'' = Some 5
   \<and> \<not> (10 :: real) \<le> 5"
  by (simp add: should_generate_reply_def)

text \<open>
  Claim C8, amended. Provided the clock is never set back, along every sequence of
  decisions and sweeps the timestamp of a session never decreases: whenever the session is
  in the store at two points of the sequence, the later timestamp is at least the earlier
  one. A sweep never alters a timestamp: it removes the entry or leaves it as it is.
\<close>

theorem timestamps_never_decrease:
  assumes "clock_never_set_back s ops"
  shows "(\<forall>i j t t'. i \<le> j \<and> j \<le> length ops
            \<and> map_of (last_decision_time (run ops s ! i)) sid = Some t
            \<and> map_of (last_decision_time (run ops s ! j)) sid = Some t' \<longrightarrow> t \<le> t')
         \<and> (map_of (last_decision_time (apply_op (Sweep now max_age) s)) sid = None
            \<or> map_of (last_decision_time (apply_op (Sweep now max_age) s)) sid
                 = map_of (last_decision_time s) sid)"
proof -
  from assms have sorted: "sorted (map op_time ops)"
    and bound: "\<forall>(k, u) \<in> set (last_decision_time s). \<forall>y \<in> set ops. u \<le> op_time y"
    by (auto simp: clock_never_set_back_def list_all_iff)
  from run_nth_mono [OF sorted bound] sweep_lookup [of now max_age s sid]
  show ?thesis by blast
qed

text \<open>The amended C8 along two decisions and two sweeps with increasing readings.\<close>

theorem timestamps_never_decrease_witness:
  "clock_never_set_back
     \<lparr>config = [], enabled = PBool True, reply_probability = Fin 0.3,
      last_decision_time = [(''s0'', 5)]\<rparr>
     [Decide (Some ''s1'') 0 10, Sweep 20 3600, Decide (Some ''s1'') (1/2) 30, Sweep 4000 3600]
   \<and> map_of (last_decision_time
        (run [Decide (Some ''s1'') 0 10, Sweep 20 3600, Decide (Some ''s1'') (1/2) 30,
              Sweep 4000 3600]
           \<lparr>config = [], enabled = PBool True, reply_probability = Fin 0.3,
            last_decision_time = [(''s0'', 5)]\<rparr> ! 1)) ''s1'' = Some 10
   \<and> map_of (last_decision_time
        (run [Decide (Some ''s1'') 0 10, Sweep 20 3600, Decide (Some ''s1'') (1/2) 30,
              Sweep 4000 3600]
           \<lparr>config = [], enabled = PBool True, reply_probability = Fin 0.3,
            last_decision_time = [(''s0'', 5)]\<rparr> ! 3)) ''s1'' = Some 30
   \<and> (10 :: real) \<le> 30
   \<and> map_of (last_decision_time
        (run [Decide (Some ''s1'') 0 10, Sweep 20 3600, Decide (Some ''s1'') (1/2) 30,
              Sweep 4000 3600]
           \<lparr>config = [], enabled = PBool True, reply_probability = Fin 0.3,
            last_decision_time = [(''s0'', 5)]\<rparr> ! 4)) ''s0'' = None"
proof -
  let ?s = "\<lparr>config = [], enabled = PBool True, reply_probability = Fin 0.3,
             last_decision_time = [(''s0'', 5 :: real)]\<rparr>"
  let ?ops = "[Decide (Some ''s1'') 0 10, Sweep 20 3600, Decide (Some ''s1'') (1/2) 30,
               Sweep 4000 3600]"
  have c: "clock_never_set_back ?s ?ops"
    by (simp add: clock_never_set_back_def)
  have v: "map_of (last_decision_time (run ?ops ?s ! 1)) ''s1'' = Some 10"
    "map_of (last_decision_time (run ?ops ?s ! 3)) ''s1'' = Some 30"
    "map_of (last_decision_time (run ?ops ?s ! 4)) ''s0'' = None"
    by (simp_all add: should_generate_reply_def cleanup_old_sessions_def sessions_to_remove_def
          numeral_nat)
  from timestamps_never_decrease [OF c, of "''s1''"] v have "(10 :: real) \<le> 30"
    by (simp add: numeral_nat)
  with c v show ?thesis by simp
qed


section \<open>The claims about the pipeline\<close>








text \<open>
  Claim C7. When the file step has produced a path and the transcription yields an empty
  or absent text, or raises, the run ends with the outcome transcription-empty: after the
  two calls to the file processor and to the transcriber only the cleanup follows, so
  nothing is appended to a history, the reply service is not asked and no reply is
  generated.
\<close>

theorem empty_transcription_ends_run:
  assumes "process_voice_file_result env = Inr (Some path)" and "path \<noteq> []"
    and "transcription_empty env"
  shows
  "fst (process_voice_message pl env ev voice st) = Inr TranscriptionEmpty
   \<and> new_effects st (snd (process_voice_message pl env ev voice st)) =
       [ProcessVoiceFile voice, TranscribeAudio path, CleanupResources]
         @ (if returns (cleanup_resources_result env) then [CleanupOldSessions] else [])
   \<and> count_effects is_history_append
        (new_effects st (snd (process_voice_message pl env ev voice st))) = 0
   \<and> count_effects is_record_effect
        (new_effects st (snd (process_voice_message pl env ev voice st))) = 0
   \<and> count_effects is_decision
        (new_effects st (snd (process_voice_message pl env ev voice st))) = 0
   \<and> count_effects is_reply_generation
        (new_effects st (snd (process_voice_message pl env ev voice st))) = 0"
proof -
  let ?st1 = "st\<lparr>trace := trace st @ [ProcessVoiceFile voice, TranscribeAudio path]\<rparr>"
  have run: "process_voice_message pl env ev voice st =
      (Inr TranscriptionEmpty, snd (cleanup_resources env ?st1))"
    by (simp add: process_voice_message_def try_finally_def try_except_def
          process_body_empty_transcription [OF assms] cleanup_resources_run)
  have neu: "new_effects st (snd (process_voice_message pl env ev voice st)) =
       [ProcessVoiceFile voice, TranscribeAudio path, CleanupResources]
         @ (if returns (cleanup_resources_result env) then [CleanupOldSessions] else [])"
    unfolding run by (simp add: cleanup_resources_run new_effects_def split: sum.splits)
  show ?thesis
    unfolding neu using run by (simp add: count_effects_def)
qed

text \<open>
  The theorem of C7 at a transcriber that raises, one that returns the empty text and one
  that returns \<^verbatim>\<open>None\<close>.
\<close>

theorem empty_transcription_ends_run_witness:
  "process_voice_file_result (sample_env\<lparr>transcribe_audio_result := Inl STTProviderError\<rparr>)
     = Inr (Some ''v.wav'')
   \<and> ''v.wav'' \<noteq> []
   \<and> transcription_empty (sample_env\<lparr>transcribe_audio_result := Inl STTProviderError\<rparr>)
   \<and> transcription_empty (sample_env\<lparr>transcribe_audio_result := Inr None\<rparr>)
   \<and> transcription_empty (sample_env\<lparr>transcribe_audio_result := Inr (Some [])\<rparr>)
   \<and> fst (process_voice_message record_only_plugin
            (sample_env\<lparr>transcribe_audio_result := Inl STTProviderError\<rparr>)
            sample_private_event ''v'' sample_state) = Inr TranscriptionEmpty
   \<and> new_effects sample_state
        (snd (process_voice_message record_only_plugin
                (sample_env\<lparr>transcribe_audio_result := Inr (Some [])\<rparr>)
                sample_private_event ''v'' sample_state)) =
       [ProcessVoiceFile ''v'', TranscribeAudio ''v.wav'', CleanupResources, CleanupOldSessions]
   \<and> count_effects is_history_append
        (new_effects sample_state
          (snd (process_voice_message record_only_plugin
                  (sample_env\<lparr>transcribe_audio_result := Inr None\<rparr>)
                  sample_private_event ''v'' sample_state))) = 0"
proof -
  let ?e1 = "sample_env\<lparr>transcribe_audio_result := Inl STTProviderError\<rparr>"
  let ?e2 = "sample_env\<lparr>transcribe_audio_result := Inr (Some [])\<rparr>"
  let ?e3 = "sample_env\<lparr>transcribe_audio_result := Inr None\<rparr>"
  have f: "process_voice_file_result ?e1 = Inr (Some ''v.wav'')"
    "process_voice_file_result ?e2 = Inr (Some ''v.wav'')"
    "process_voice_file_result ?e3 = Inr (Some ''v.wav'')"
    by (simp_all add: sample_env_def)
  have p: "''v.wav'' \<noteq> []" by simp
  have t: "transcription_empty ?e1" "transcription_empty ?e2" "transcription_empty ?e3"
    by (simp_all add: transcription_empty_def if_str_def)
  have r: "returns (cleanup_resources_result ?e2)"
    by (simp add: sample_env_def)
  note w1 = empty_transcription_ends_run [OF f(1) p t(1), of record_only_plugin
              sample_private_event "''v''" sample_state]
  note w2 = empty_transcription_ends_run [OF f(2) p t(2), of record_only_plugin
              sample_private_event "''v''" sample_state]
  note w3 = empty_transcription_ends_run [OF f(3) p t(3), of record_only_plugin
              sample_private_event "''v''" sample_state]
  from w1 have a: "fst (process_voice_message record_only_plugin ?e1 sample_private_event
                     ''v'' sample_state) = Inr TranscriptionEmpty"
    by (rule conjunct1)
  from w2 r have b: "new_effects sample_state
        (snd (process_voice_message record_only_plugin ?e2 sample_private_event ''v''
                sample_state)) =
       [ProcessVoiceFile ''v'', TranscribeAudio ''v.wav'', CleanupResources, CleanupOldSessions]"
    by simp
  from w3 have c: "count_effects is_history_append
        (new_effects sample_state
          (snd (process_voice_message record_only_plugin ?e3 sample_private_event ''v''
                  sample_state))) = 0"
    by blast
  from f(1) p t a b c show ?thesis by blast
qed










end
